theory Spec2Isabelle
  imports Main "HOL-Library.Sublist" "HOL-Library.Word"
begin

section \<open>The version metadata provider\<close>

text \<open>
  Modelled from the spec: the build-time data behind the generated headers
  \<^verbatim>\<open>example-GitVersion.h\<close> and \<^verbatim>\<open>example_lib-GitVersion.h\<close>, which both
  translation units include and which are not under the sources. The data has seven fields:
  five texts, one boolean and one non-negative integer.
\<close>

record VersionInfo =
  f_string :: string
  f_branch :: string
  f_fullhash :: string
  f_shorthash :: string
  f_isdirty :: bool
  f_distance :: nat
  f_flag :: string

text \<open>The seven accessors the headers declare, by name.\<close>

datatype accessor =
    Version_string
  | Version_branch
  | Version_fullhash
  | Version_shorthash
  | Version_isdirty
  | Version_distance
  | Version_flag

section \<open>The process state\<close>

text \<open>
  What a run can observe is recorded as a list of events, oldest first: a call of an accessor,
  an insertion of formatted text into \<^verbatim>\<open>std::cout\<close>, and \<^verbatim>\<open>std::endl\<close> (which
  writes a newline character and flushes the stream).

  The state of the process is the provider's data, the \<^verbatim>\<open>boolalpha\<close> format flag of
  \<^verbatim>\<open>std::cout\<close> (which decides whether a \<^verbatim>\<open>bool\<close> is inserted as a word or as a numeral), and the
  events so far. Numbers are inserted in decimal and without padding: the stream's
  \<^verbatim>\<open>basefield\<close> is \<^verbatim>\<open>dec\<close> and its field width is 0 from program start, and
  neither file uses a manipulator other than \<^verbatim>\<open>std::endl\<close>.
\<close>

datatype event = Called accessor | Put string | Endl

record world =
  provider :: VersionInfo
  boolalpha :: bool
  trace :: "event list"

text \<open>The state at program start: default formatting, nothing called or written yet.\<close>

definition start :: "VersionInfo \<Rightarrow> world" where
  "start p = \<lparr>provider = p, boolalpha = False, trace = []\<rparr>"

subsection \<open>Accessors\<close>

text \<open>A call of an accessor is recorded in the trace.\<close>

definition called :: "accessor \<Rightarrow> world \<Rightarrow> world" where
  "called a w = w\<lparr>trace := trace w @ [Called a]\<rparr>"

text \<open>
  Modelled from the spec: \<^verbatim>\<open>version_string()\<close> of the generated header, whose
  implementation is not under the sources. Like each of the seven accessors it takes no
  input and returns its field of the build-time data, changing nothing.
\<close>

definition version_string :: "world \<Rightarrow> string \<times> world" where
  "version_string w = (f_string (provider w), called Version_string w)"

text \<open>Modelled from the spec: \<^verbatim>\<open>version_branch()\<close> of the generated header.\<close>

definition version_branch :: "world \<Rightarrow> string \<times> world" where
  "version_branch w = (f_branch (provider w), called Version_branch w)"

text \<open>Modelled from the spec: \<^verbatim>\<open>version_fullhash()\<close> of the generated header.\<close>

definition version_fullhash :: "world \<Rightarrow> string \<times> world" where
  "version_fullhash w = (f_fullhash (provider w), called Version_fullhash w)"

text \<open>Modelled from the spec: \<^verbatim>\<open>version_shorthash()\<close> of the generated header.\<close>

definition version_shorthash :: "world \<Rightarrow> string \<times> world" where
  "version_shorthash w = (f_shorthash (provider w), called Version_shorthash w)"

text \<open>Modelled from the spec: \<^verbatim>\<open>version_isdirty()\<close> of the generated header.\<close>

definition version_isdirty :: "world \<Rightarrow> bool \<times> world" where
  "version_isdirty w = (f_isdirty (provider w), called Version_isdirty w)"

text \<open>Modelled from the spec: \<^verbatim>\<open>version_distance()\<close> of the generated header.\<close>

definition version_distance :: "world \<Rightarrow> nat \<times> world" where
  "version_distance w = (f_distance (provider w), called Version_distance w)"

text \<open>Modelled from the spec: \<^verbatim>\<open>version_flag()\<close> of the generated header.\<close>

definition version_flag :: "world \<Rightarrow> string \<times> world" where
  "version_flag w = (f_flag (provider w), called Version_flag w)"

subsection \<open>Stream insertion\<close>

text \<open>
  How the stream formats a number (decimal digits, most significant first) and a boolean
  (the words \<open>true\<close> and \<open>false\<close> when \<^verbatim>\<open>boolalpha\<close> is set, the numerals 1 and 0
  otherwise).
\<close>

definition digit :: "nat \<Rightarrow> char" where
  "digit d = ''0123456789'' ! (d mod 10)"

fun show_uint :: "nat \<Rightarrow> string" where
  "show_uint n = (if n < 10 then [digit n] else show_uint (n div 10) @ [digit (n mod 10)])"

declare show_uint.simps [simp del]

definition show_bool :: "bool \<Rightarrow> bool \<Rightarrow> string" where
  "show_bool alpha b =
     (if alpha then (if b then ''true'' else ''false'') else (if b then ''1'' else ''0''))"

text \<open>\<^verbatim>\<open>std::cout << s\<close> for a C string, a \<^verbatim>\<open>bool\<close> and an unsigned integer.\<close>

definition put_str :: "string \<Rightarrow> world \<Rightarrow> world" where
  "put_str s w = w\<lparr>trace := trace w @ [Put s]\<rparr>"

definition put_bool :: "bool \<Rightarrow> world \<Rightarrow> world" where
  "put_bool b w = w\<lparr>trace := trace w @ [Put (show_bool (boolalpha w) b)]\<rparr>"

definition put_uint :: "nat \<Rightarrow> world \<Rightarrow> world" where
  "put_uint n w = w\<lparr>trace := trace w @ [Put (show_uint n)]\<rparr>"

definition endl :: "world \<Rightarrow> world" where
  "endl w = w\<lparr>trace := trace w @ [Endl]\<rparr>"

section \<open>The two consumers\<close>

text \<open>
  \<^verbatim>\<open>int main(int argc, char** argv)\<close> of \<^verbatim>\<open>example.cc\<close>. Each statement inserts
  a label, then the value an accessor returns, then \<^verbatim>\<open>std::endl\<close>; the operands of
  \<^verbatim>\<open><<\<close> are evaluated left to right, as C++17 sequences them. The arguments
  \<open>argc\<close> and \<open>argv\<close> are a 32-bit \<^verbatim>\<open>int\<close> and the argument strings.
\<close>

definition main :: "32 word \<Rightarrow> string list \<Rightarrow> world \<Rightarrow> world \<times> 32 word" where
  "main argc argv w0 =
    (let w1 = endl (put_str ''CMake-GitVersion example'' w0);
         (v2, w2) = version_string (put_str ''- version_string: '' w1);
         w2 = endl (put_str v2 w2);
         (v3, w3) = version_branch (put_str ''- version_branch: '' w2);
         w3 = endl (put_str v3 w3);
         (v4, w4) = version_fullhash (put_str ''- version_fullhash: '' w3);
         w4 = endl (put_str v4 w4);
         (v5, w5) = version_shorthash (put_str ''- version_shorthash: '' w4);
         w5 = endl (put_str v5 w5);
         (v6, w6) = version_isdirty (put_str ''- version_isdirty: '' w5);
         w6 = endl (put_bool v6 w6);
         (v7, w7) = version_distance (put_str ''- version_distance: '' w6);
         w7 = endl (put_uint v7 w7);
         (v8, w8) = version_flag (put_str ''- version_flag: '' w7);
         w8 = endl (put_str v8 w8)
     in (w8, 0))"

text \<open>\<^verbatim>\<open>void print_version_of_lib()\<close> of \<^verbatim>\<open>example-shared.cc\<close>.\<close>

definition print_version_of_lib :: "world \<Rightarrow> world" where
  "print_version_of_lib w0 =
    (let w1 = endl (put_str ''| CMake-GitVersion library version'' w0);
         (v2, w2) = version_string (put_str ''| - version_string: '' w1);
         w2 = endl (put_str v2 w2);
         (v3, w3) = version_branch (put_str ''| - version_branch: '' w2);
         w3 = endl (put_str v3 w3);
         (v4, w4) = version_fullhash (put_str ''| - version_fullhash: '' w3);
         w4 = endl (put_str v4 w4);
         (v5, w5) = version_shorthash (put_str ''| - version_shorthash: '' w4);
         w5 = endl (put_str v5 w5);
         (v6, w6) = version_isdirty (put_str ''| - version_isdirty: '' w5);
         w6 = endl (put_bool v6 w6);
         (v7, w7) = version_distance (put_str ''| - version_distance: '' w6);
         w7 = endl (put_uint v7 w7);
         (v8, w8) = version_flag (put_str ''| - version_flag: '' w7);
         w8 = endl (put_str v8 w8)
     in w8)"

section \<open>Observing a run\<close>

text \<open>The bytes a trace puts on standard output.\<close>

fun bytes :: "event \<Rightarrow> string" where
  "bytes (Called a) = []"
| "bytes (Put s) = s"
| "bytes Endl = [CHR 0x0A]"

definition printed :: "event list \<Rightarrow> string" where
  "printed es = concat (map bytes es)"

text \<open>
  The lines a trace writes: a line is the text inserted up to one \<^verbatim>\<open>std::endl\<close>.
  Text after the last \<^verbatim>\<open>std::endl\<close> is an unfinished line.
\<close>

fun lines_from :: "string \<Rightarrow> event list \<Rightarrow> string list" where
  "lines_from cur [] = (if cur = [] then [] else [cur])"
| "lines_from cur (Called a # es) = lines_from cur es"
| "lines_from cur (Put s # es) = lines_from (cur @ s) es"
| "lines_from cur (Endl # es) = cur # lines_from [] es"

definition lines_written :: "event list \<Rightarrow> string list" where
  "lines_written es = lines_from [] es"

text \<open>The accessors a trace calls, in call order.\<close>

fun calls :: "event list \<Rightarrow> accessor list" where
  "calls [] = []"
| "calls (Called a # es) = a # calls es"
| "calls (Put s # es) = calls es"
| "calls (Endl # es) = calls es"

text \<open>The events of a run that takes the state \<open>w\<close> to the state \<open>w'\<close>.\<close>

definition emitted :: "world \<Rightarrow> world \<Rightarrow> event list" where
  "emitted w w' = drop (length (trace w)) (trace w')"

text \<open>
  The scenario of the specification: the build-time values of its testable property.
\<close>

definition scenario :: VersionInfo where
  "scenario = \<lparr>f_string = ''1.2.3-dirty'', f_branch = ''main'',
     f_fullhash = ''abcdef1234567890'', f_shorthash = ''abcdef1'', f_isdirty = True,
     f_distance = 5, f_flag = ''debug''\<rparr>"

text \<open>
  An accessor is pure at a state when a second call right after the first returns the same
  value and the first call left the build-time data, the stream's formatting and the bytes
  on standard output as they were. (The trace entry that records the call is bookkeeping of
  the model, not state of the program.)
\<close>

definition pure_at :: "(world \<Rightarrow> 'a \<times> world) \<Rightarrow> world \<Rightarrow> bool" where
  "pure_at acc w =
    (let (v1, w1) = acc w; (v2, w2) = acc w1
     in v1 = v2 \<and> provider w1 = provider w \<and> boolalpha w1 = boolalpha w \<and>
        printed (trace w1) = printed (trace w))"

section \<open>What a run does\<close>

lemmas prim_defs =
  put_str_def put_bool_def put_uint_def endl_def called_def
  version_string_def version_branch_def version_fullhash_def version_shorthash_def
  version_isdirty_def version_distance_def version_flag_def

lemmas accessor_defs =
  version_string_def version_branch_def version_fullhash_def version_shorthash_def
  version_isdirty_def version_distance_def version_flag_def

lemma show_uint_digit: "n < 10 \<Longrightarrow> show_uint n = [digit n]"
  by (subst show_uint.simps) simp

lemma main_trace:
  "trace (fst (main argc argv w)) = trace w @
     [Put ''CMake-GitVersion example'', Endl,
      Put ''- version_string: '', Called Version_string, Put (f_string (provider w)), Endl,
      Put ''- version_branch: '', Called Version_branch, Put (f_branch (provider w)), Endl,
      Put ''- version_fullhash: '', Called Version_fullhash, Put (f_fullhash (provider w)), Endl,
      Put ''- version_shorthash: '', Called Version_shorthash, Put (f_shorthash (provider w)), Endl,
      Put ''- version_isdirty: '', Called Version_isdirty,
        Put (show_bool (boolalpha w) (f_isdirty (provider w))), Endl,
      Put ''- version_distance: '', Called Version_distance,
        Put (show_uint (f_distance (provider w))), Endl,
      Put ''- version_flag: '', Called Version_flag, Put (f_flag (provider w)), Endl]"
  by (simp add: main_def prim_defs)

lemma lib_trace:
  "trace (print_version_of_lib w) = trace w @
     [Put ''| CMake-GitVersion library version'', Endl,
      Put ''| - version_string: '', Called Version_string, Put (f_string (provider w)), Endl,
      Put ''| - version_branch: '', Called Version_branch, Put (f_branch (provider w)), Endl,
      Put ''| - version_fullhash: '', Called Version_fullhash, Put (f_fullhash (provider w)), Endl,
      Put ''| - version_shorthash: '', Called Version_shorthash,
        Put (f_shorthash (provider w)), Endl,
      Put ''| - version_isdirty: '', Called Version_isdirty,
        Put (show_bool (boolalpha w) (f_isdirty (provider w))), Endl,
      Put ''| - version_distance: '', Called Version_distance,
        Put (show_uint (f_distance (provider w))), Endl,
      Put ''| - version_flag: '', Called Version_flag, Put (f_flag (provider w)), Endl]"
  by (simp add: print_version_of_lib_def prim_defs)

lemma main_provider: "provider (fst (main argc argv w)) = provider w"
  by (simp add: main_def prim_defs)

lemma lib_provider: "provider (print_version_of_lib w) = provider w"
  by (simp add: print_version_of_lib_def prim_defs)

lemma main_boolalpha: "boolalpha (fst (main argc argv w)) = boolalpha w"
  by (simp add: main_def prim_defs)

lemma lib_boolalpha: "boolalpha (print_version_of_lib w) = boolalpha w"
  by (simp add: print_version_of_lib_def prim_defs)

lemma emitted_append: "trace w' = trace w @ es \<Longrightarrow> emitted w w' = es"
  by (simp add: emitted_def)

lemmas main_emitted = emitted_append [OF main_trace]

lemmas lib_emitted = emitted_append [OF lib_trace]

lemma scenario_printed:
  "printed (trace (fst (main argc argv (start scenario)))) =
     ''CMake-GitVersion example\<newline>- version_string: 1.2.3-dirty\<newline>- version_branch: main\<newline>- version_fullhash: abcdef1234567890\<newline>- version_shorthash: abcdef1\<newline>- version_isdirty: 1\<newline>- version_distance: 5\<newline>- version_flag: debug\<newline>''"
  by (simp add: main_trace start_def scenario_def printed_def show_bool_def
      show_uint_digit digit_def)

section \<open>Properties of the two consumers\<close>

text \<open>
  C1, as amended. For the scenario's provider values, started from the state at program
  start, \<open>main\<close> prints the header line and then the seven fields in the fixed order: the
  five texts verbatim, the distance 5 as the decimal numeral 5, and the boolean \<open>true\<close> as
  the numeral 1.
\<close>

theorem scenario_output:
  "printed (trace (fst (main argc argv (start scenario)))) =
     ''CMake-GitVersion example\<newline>- version_string: 1.2.3-dirty\<newline>- version_branch: main\<newline>- version_fullhash: abcdef1234567890\<newline>- version_shorthash: abcdef1\<newline>- version_isdirty: 1\<newline>- version_distance: 5\<newline>- version_flag: debug\<newline>''"
  by (rule scenario_printed)

text \<open>
  C1, as stated, fails on the boolean: the word \<open>true\<close> occurs nowhere in what \<open>main\<close>
  prints for the scenario; the line of \<open>version_isdirty\<close> carries the numeral 1.
\<close>

theorem scenario_true_not_verbatim:
  "\<not> sublist ''true'' (printed (trace (fst (main 1 [''example''] (start scenario))))) \<and>
   sublist ''- version_isdirty: 1'' (printed (trace (fst (main 1 [''example''] (start scenario)))))"
  unfolding scenario_printed by code_simp

text \<open>
  C2. From any state, \<open>main\<close> writes exactly eight lines: its header line and then one
  line per field in the order \<open>version_string\<close>, \<open>version_branch\<close>, \<open>version_fullhash\<close>,
  \<open>version_shorthash\<close>, \<open>version_isdirty\<close>, \<open>version_distance\<close>, \<open>version_flag\<close>, each the
  label \<open>- <field_name>: \<close> followed by the field's value as the stream formats it.
  \<open>print_version_of_lib\<close> does the same with its own header and every label prefixed by
  \<open>| \<close>. The bytes on standard output are these lines, each ended by a newline character.
\<close>

theorem header_and_seven_lines:
  "lines_written (emitted w (fst (main argc argv w))) =
     [''CMake-GitVersion example'',
      ''- version_string: '' @ f_string (provider w),
      ''- version_branch: '' @ f_branch (provider w),
      ''- version_fullhash: '' @ f_fullhash (provider w),
      ''- version_shorthash: '' @ f_shorthash (provider w),
      ''- version_isdirty: '' @ show_bool (boolalpha w) (f_isdirty (provider w)),
      ''- version_distance: '' @ show_uint (f_distance (provider w)),
      ''- version_flag: '' @ f_flag (provider w)] \<and>
   printed (emitted w (fst (main argc argv w))) =
     concat (map (\<lambda>l. l @ [CHR 0x0A]) (lines_written (emitted w (fst (main argc argv w))))) \<and>
   lines_written (emitted w (print_version_of_lib w)) =
     [''| CMake-GitVersion library version'',
      ''| - version_string: '' @ f_string (provider w),
      ''| - version_branch: '' @ f_branch (provider w),
      ''| - version_fullhash: '' @ f_fullhash (provider w),
      ''| - version_shorthash: '' @ f_shorthash (provider w),
      ''| - version_isdirty: '' @ show_bool (boolalpha w) (f_isdirty (provider w)),
      ''| - version_distance: '' @ show_uint (f_distance (provider w)),
      ''| - version_flag: '' @ f_flag (provider w)] \<and>
   printed (emitted w (print_version_of_lib w)) =
     concat (map (\<lambda>l. l @ [CHR 0x0A]) (lines_written (emitted w (print_version_of_lib w))))"
  by (simp add: main_emitted lib_emitted lines_written_def printed_def)

text \<open>
  C3. For every provider, every argument list and every state of the stream, \<open>main\<close>
  returns, and the value it returns is the exit status 0.
\<close>

theorem main_returns_zero: "snd (main argc argv w) = 0"
  by (simp add: main_def prim_defs split_def Let_def)

text \<open>
  C4. Two runs over the same provider values, with the stream formatting alike, put the
  same bytes on standard output, whatever their arguments and whatever was called or
  written before: the bytes are a function of the provider values.
\<close>

theorem same_provider_same_output:
  assumes "provider w1 = provider w2" and "boolalpha w1 = boolalpha w2"
  shows "printed (emitted w1 (fst (main argc1 argv1 w1))) =
           printed (emitted w2 (fst (main argc2 argv2 w2))) \<and>
         printed (emitted w1 (print_version_of_lib w1)) =
           printed (emitted w2 (print_version_of_lib w2))"
  using assms by (simp add: main_emitted lib_emitted)

theorem same_provider_same_output_witness:
  "provider (start scenario) = provider (put_str ''earlier'' (start scenario)) \<and>
   boolalpha (start scenario) = boolalpha (put_str ''earlier'' (start scenario)) \<and>
   printed (emitted (start scenario) (fst (main 1 [''example''] (start scenario)))) =
     printed (emitted (put_str ''earlier'' (start scenario))
       (fst (main 3 [''example'', ''-v'', ''x''] (put_str ''earlier'' (start scenario))))) \<and>
   printed (emitted (start scenario) (print_version_of_lib (start scenario))) =
     printed (emitted (put_str ''earlier'' (start scenario))
       (print_version_of_lib (put_str ''earlier'' (start scenario))))"
proof -
  have p: "provider (start scenario) = provider (put_str ''earlier'' (start scenario))"
    by (simp add: put_str_def)
  have b: "boolalpha (start scenario) = boolalpha (put_str ''earlier'' (start scenario))"
    by (simp add: put_str_def)
  show ?thesis
    using p b same_provider_same_output [OF p b, of 1 "[''example'']" 3 "[''example'', ''-v'', ''x'']"]
    by simp
qed

text \<open>
  C5. Each of the seven accessors is pure at every state: it returns a value (there is no
  failing case), a second call returns the same value, and the call changes neither the
  build-time data nor the stream. A call after a whole run of either consumer still returns
  what a call before the run returns.
\<close>

theorem accessors_pure:
  "pure_at version_string w \<and> pure_at version_branch w \<and> pure_at version_fullhash w \<and>
   pure_at version_shorthash w \<and> pure_at version_isdirty w \<and> pure_at version_distance w \<and>
   pure_at version_flag w \<and>
   fst (version_string (fst (main argc argv w))) = fst (version_string w) \<and>
   fst (version_branch (fst (main argc argv w))) = fst (version_branch w) \<and>
   fst (version_fullhash (fst (main argc argv w))) = fst (version_fullhash w) \<and>
   fst (version_shorthash (fst (main argc argv w))) = fst (version_shorthash w) \<and>
   fst (version_isdirty (fst (main argc argv w))) = fst (version_isdirty w) \<and>
   fst (version_distance (fst (main argc argv w))) = fst (version_distance w) \<and>
   fst (version_flag (fst (main argc argv w))) = fst (version_flag w) \<and>
   fst (version_string (print_version_of_lib w)) = fst (version_string w) \<and>
   fst (version_branch (print_version_of_lib w)) = fst (version_branch w) \<and>
   fst (version_fullhash (print_version_of_lib w)) = fst (version_fullhash w) \<and>
   fst (version_shorthash (print_version_of_lib w)) = fst (version_shorthash w) \<and>
   fst (version_isdirty (print_version_of_lib w)) = fst (version_isdirty w) \<and>
   fst (version_distance (print_version_of_lib w)) = fst (version_distance w) \<and>
   fst (version_flag (print_version_of_lib w)) = fst (version_flag w)"
proof -
  have pure: "pure_at version_string w" "pure_at version_branch w"
    "pure_at version_fullhash w" "pure_at version_shorthash w" "pure_at version_isdirty w"
    "pure_at version_distance w" "pure_at version_flag w"
    by (simp_all add: pure_at_def accessor_defs called_def printed_def)
  have stable: "fst (version_string w') = f_string (provider w')"
    "fst (version_branch w') = f_branch (provider w')"
    "fst (version_fullhash w') = f_fullhash (provider w')"
    "fst (version_shorthash w') = f_shorthash (provider w')"
    "fst (version_isdirty w') = f_isdirty (provider w')"
    "fst (version_distance w') = f_distance (provider w')"
    "fst (version_flag w') = f_flag (provider w')" for w'
    by (simp_all add: accessor_defs)
  show ?thesis
    by (simp only: pure stable main_provider lib_provider simp_thms)
qed

text \<open>
  C6. From any state, each consumer emits exactly these events: after the header line, for
  each field in the fixed order, the label is inserted, the field's accessor is called, and
  the value it returned is inserted next, followed by \<^verbatim>\<open>std::endl\<close>. So each of the
  seven accessors is called exactly once, in the fixed order, and nothing else passes
  between provider and consumer.
\<close>

theorem each_accessor_called_once:
  "emitted w (fst (main argc argv w)) =
     [Put ''CMake-GitVersion example'', Endl,
      Put ''- version_string: '', Called Version_string, Put (fst (version_string w)), Endl,
      Put ''- version_branch: '', Called Version_branch, Put (fst (version_branch w)), Endl,
      Put ''- version_fullhash: '', Called Version_fullhash, Put (fst (version_fullhash w)), Endl,
      Put ''- version_shorthash: '', Called Version_shorthash,
        Put (fst (version_shorthash w)), Endl,
      Put ''- version_isdirty: '', Called Version_isdirty,
        Put (show_bool (boolalpha w) (fst (version_isdirty w))), Endl,
      Put ''- version_distance: '', Called Version_distance,
        Put (show_uint (fst (version_distance w))), Endl,
      Put ''- version_flag: '', Called Version_flag, Put (fst (version_flag w)), Endl] \<and>
   calls (emitted w (fst (main argc argv w))) =
     [Version_string, Version_branch, Version_fullhash, Version_shorthash,
      Version_isdirty, Version_distance, Version_flag] \<and>
   emitted w (print_version_of_lib w) =
     [Put ''| CMake-GitVersion library version'', Endl,
      Put ''| - version_string: '', Called Version_string, Put (fst (version_string w)), Endl,
      Put ''| - version_branch: '', Called Version_branch, Put (fst (version_branch w)), Endl,
      Put ''| - version_fullhash: '', Called Version_fullhash,
        Put (fst (version_fullhash w)), Endl,
      Put ''| - version_shorthash: '', Called Version_shorthash,
        Put (fst (version_shorthash w)), Endl,
      Put ''| - version_isdirty: '', Called Version_isdirty,
        Put (show_bool (boolalpha w) (fst (version_isdirty w))), Endl,
      Put ''| - version_distance: '', Called Version_distance,
        Put (show_uint (fst (version_distance w))), Endl,
      Put ''| - version_flag: '', Called Version_flag, Put (fst (version_flag w)), Endl] \<and>
   calls (emitted w (print_version_of_lib w)) =
     [Version_string, Version_branch, Version_fullhash, Version_shorthash,
      Version_isdirty, Version_distance, Version_flag]"
  by (simp add: main_emitted lib_emitted accessor_defs)

text \<open>
  C7. No operation of either consumer changes the provider's data: every accessor call and
  every insertion leaves all seven fields as they were, so the data at the end of a run is
  the data at its start.
\<close>

theorem provider_constant:
  "provider (fst (main argc argv w)) = provider w \<and>
   provider (print_version_of_lib w) = provider w \<and>
   provider (put_str s w) = provider w \<and> provider (put_bool b w) = provider w \<and>
   provider (put_uint n w) = provider w \<and> provider (endl w) = provider w \<and>
   provider (snd (version_string w)) = provider w \<and>
   provider (snd (version_branch w)) = provider w \<and>
   provider (snd (version_fullhash w)) = provider w \<and>
   provider (snd (version_shorthash w)) = provider w \<and>
   provider (snd (version_isdirty w)) = provider w \<and>
   provider (snd (version_distance w)) = provider w \<and>
   provider (snd (version_flag w)) = provider w"
  by (simp add: main_provider lib_provider prim_defs)

text \<open>
  C8. \<open>main\<close> never reads its arguments: for any two argument lists it ends in the same
  state, so prints the same, and returns the same value.
\<close>

theorem main_ignores_arguments: "main argc argv w = main argc' argv' w"
  by (simp add: main_def)

text \<open>
  C9. With the stream's default formatting (\<^verbatim>\<open>boolalpha\<close> clear, as at program start;
  neither consumer sets it), the line of \<open>version_isdirty\<close> ends in the numeral 1 when the
  field is true and in the numeral 0 when it is false, in both consumers.
\<close>

theorem isdirty_printed_as_numeral:
  assumes "\<not> boolalpha w"
  shows "lines_written (emitted w (fst (main argc argv w))) ! 5 =
           ''- version_isdirty: '' @ (if f_isdirty (provider w) then ''1'' else ''0'') \<and>
         lines_written (emitted w (print_version_of_lib w)) ! 5 =
           ''| - version_isdirty: '' @ (if f_isdirty (provider w) then ''1'' else ''0'') \<and>
         \<not> boolalpha (fst (main argc argv w)) \<and> \<not> boolalpha (print_version_of_lib w)"
  using assms
  by (simp add: main_emitted lib_emitted lines_written_def show_bool_def
      main_boolalpha lib_boolalpha)

theorem isdirty_printed_as_numeral_witness:
  "\<not> boolalpha (start scenario) \<and>
   lines_written (emitted (start scenario) (fst (main 1 [''example''] (start scenario)))) ! 5 =
     ''- version_isdirty: 1'' \<and>
   lines_written (emitted (start scenario) (print_version_of_lib (start scenario))) ! 5 =
     ''| - version_isdirty: 1''"
proof -
  have h: "\<not> boolalpha (start scenario)"
    by (simp add: start_def)
  show ?thesis
    using h isdirty_printed_as_numeral [OF h, of 1 "[''example'']"]
    by (simp add: start_def scenario_def)
qed

text \<open>
  C10. For the same provider values and the same stream formatting, the seven metadata lines
  of \<open>print_version_of_lib\<close> are the seven metadata lines of \<open>main\<close>, each with \<open>| \<close> put in
  front. Both write eight lines and make the same accessor calls; only the header lines
  differ otherwise.
\<close>

theorem lib_lines_are_main_lines_prefixed:
  assumes "provider w2 = provider w1" and "boolalpha w2 = boolalpha w1"
  shows "tl (lines_written (emitted w2 (print_version_of_lib w2))) =
           map ((@) ''| '') (tl (lines_written (emitted w1 (fst (main argc argv w1))))) \<and>
         length (tl (lines_written (emitted w1 (fst (main argc argv w1))))) = 7 \<and>
         hd (lines_written (emitted w1 (fst (main argc argv w1)))) =
           ''CMake-GitVersion example'' \<and>
         hd (lines_written (emitted w2 (print_version_of_lib w2))) =
           ''| CMake-GitVersion library version'' \<and>
         calls (emitted w2 (print_version_of_lib w2)) =
           calls (emitted w1 (fst (main argc argv w1)))"
  using assms by (simp add: main_emitted lib_emitted lines_written_def)

theorem lib_lines_are_main_lines_prefixed_witness:
  "provider (put_str ''earlier'' (start scenario)) = provider (start scenario) \<and>
   boolalpha (put_str ''earlier'' (start scenario)) = boolalpha (start scenario) \<and>
   tl (lines_written (emitted (put_str ''earlier'' (start scenario))
         (print_version_of_lib (put_str ''earlier'' (start scenario))))) =
     map ((@) ''| '')
       (tl (lines_written (emitted (start scenario) (fst (main 1 [''example''] (start scenario))))))"
proof -
  have p: "provider (put_str ''earlier'' (start scenario)) = provider (start scenario)"
    by (simp add: put_str_def)
  have b: "boolalpha (put_str ''earlier'' (start scenario)) = boolalpha (start scenario)"
    by (simp add: put_str_def)
  show ?thesis
    using p b lib_lines_are_main_lines_prefixed [OF p b, of 1 "[''example'']"]
    by simp
qed

end
